theory Spec2Isabelle
  imports Main
begin

section \<open>Data shared by the two portals\<close>

text \<open>
  A reservation as the front-ends receive it from the API. The handlers read the fields
  \<open>id\<close>, \<open>stall_id\<close>, \<open>status\<close>, \<open>notes\<close> and \<open>qr_data\<close>; every other field of the
  JSON object (\<open>stall\<close>, \<open>user\<close>, \<open>confirmed_at\<close>, ...) lives in the extension slot of
  the record, so that the object spread \<open>{ ...r, status: 'confirmed' }\<close> is the record
  update \<open>r\<lparr>status := ''confirmed''\<rparr>\<close> whatever those fields are. The field \<open>id\<close> is
  named \<open>res_id\<close> (\<open>id\<close> is the identity function of HOL) and \<open>notes\<close> is named
  \<open>res_notes\<close> (a keyword of Isabelle). The status is the loosely typed string of the
  source.
\<close>

record reservation =
  res_id :: nat
  stall_id :: nat
  status :: string
  res_notes :: string
  qr_data :: string

text \<open>Calls of the two \<open>api.js\<close> clients, recorded in the order they are issued.\<close>

datatype request =
    Employee_cancelReservation nat
  | Employee_approveReservation nat
  | Employee_rejectReservation nat string
  | Vendor_cancelReservation nat
  | Vendor_createReservation nat string
  | Vendor_getUserReservations
  | Vendor_getAllGenres
  | Vendor_getUserGenres
  | Vendor_getAllStalls

datatype toast = ToastSuccess string | ToastError string

text \<open>
  The outcome of an awaited API call: the promise resolves, or it rejects with an error
  whose \<open>error.response?.data?.error\<close> is a string or undefined.
\<close>

datatype response = Resolved | Failed "string option"

text \<open>
  JavaScript's \<open>x || d\<close> where \<open>x\<close> is a string or undefined: the empty string and
  undefined are falsy, every other string is truthy.
\<close>

fun js_or :: "string option \<Rightarrow> string \<Rightarrow> string" where
  "js_or None d = d"
| "js_or (Some s) d = (if s = [] then d else s)"

section \<open>Employee portal: the Reservations page\<close>

text \<open>
  The component state of \<open>Reservations\<close> (its \<open>useState\<close> cells that the handlers write),
  together with the toasts shown and the API calls issued so far.
\<close>

record 'r staff_state =
  reservations :: "'r list"
  expandedReservation :: "nat option"
  cancelling :: "nat option"
  staff_toasts :: "toast list"
  staff_calls :: "request list"

text \<open>
  What the outside world answers during one run of a handler: \<open>window.confirm\<close>,
  \<open>window.prompt\<close> (\<open>None\<close> is \<open>null\<close>, the dialog was dismissed) and the awaited API call.
\<close>

record env =
  confirm_answer :: bool
  prompt_answer :: "string option"
  api_response :: response

text \<open>
  \<open>handleCancelReservation\<close>: after the confirmation dialog the cancel endpoint is called;
  on success the reservation is filtered out of the local list ("Remove from local
  state"), on failure an error toast is shown; \<open>finally\<close> resets \<open>cancelling\<close>.
\<close>

definition handleCancelReservation ::
  "env \<Rightarrow> 'a reservation_scheme \<Rightarrow> 'a reservation_scheme staff_state
     \<Rightarrow> 'a reservation_scheme staff_state" where
  "handleCancelReservation e reservation st =
     (if \<not> confirm_answer e then st
      else
        let st1 = st\<lparr>cancelling := Some (res_id reservation),
                      staff_calls := staff_calls st @ [Employee_cancelReservation (res_id reservation)]\<rparr>
        in (case api_response e of
              Resolved \<Rightarrow>
                st1\<lparr>staff_toasts := staff_toasts st1 @
                       [ToastSuccess ''Reservation cancelled successfully. Email sent to vendor.''],
                     reservations := filter (\<lambda>r. res_id r \<noteq> res_id reservation) (reservations st),
                     expandedReservation := None,
                     cancelling := None\<rparr>
            | Failed msg \<Rightarrow>
                st1\<lparr>staff_toasts := staff_toasts st1 @
                       [ToastError (js_or msg ''Failed to cancel reservation'')],
                     cancelling := None\<rparr>))"

text \<open>
  \<open>handleApproveReservation\<close>: after the confirmation dialog the approve endpoint is
  called; on success the local list is mapped, replacing the status of every entry with
  the reservation's id by \<open>'confirmed'\<close>.
\<close>

definition handleApproveReservation ::
  "env \<Rightarrow> 'a reservation_scheme \<Rightarrow> 'a reservation_scheme staff_state
     \<Rightarrow> 'a reservation_scheme staff_state" where
  "handleApproveReservation e reservation st =
     (if \<not> confirm_answer e then st
      else
        let st1 = st\<lparr>cancelling := Some (res_id reservation),
                      staff_calls := staff_calls st @ [Employee_approveReservation (res_id reservation)]\<rparr>
        in (case api_response e of
              Resolved \<Rightarrow>
                st1\<lparr>staff_toasts := staff_toasts st1 @
                       [ToastSuccess ''Reservation approved! Confirmation email sent to vendor.''],
                     reservations :=
                       map (\<lambda>r. if res_id r = res_id reservation
                                 then r\<lparr>status := ''confirmed''\<rparr> else r) (reservations st),
                     expandedReservation := None,
                     cancelling := None\<rparr>
            | Failed msg \<Rightarrow>
                st1\<lparr>staff_toasts := staff_toasts st1 @
                       [ToastError (js_or msg ''Failed to approve reservation'')],
                     cancelling := None\<rparr>))"

text \<open>
  \<open>handleRejectReservation\<close>: the prompt asks for an optional reason; \<open>null\<close> returns at
  once. Otherwise the reject endpoint is called with \<open>reason || 'No reason provided'\<close>; on
  success the reservation is filtered out of the local list.
\<close>

definition handleRejectReservation ::
  "env \<Rightarrow> 'a reservation_scheme \<Rightarrow> 'a reservation_scheme staff_state
     \<Rightarrow> 'a reservation_scheme staff_state" where
  "handleRejectReservation e reservation st =
     (case prompt_answer e of
        None \<Rightarrow> st
      | Some reason \<Rightarrow>
        let st1 = st\<lparr>cancelling := Some (res_id reservation),
                      staff_calls := staff_calls st @
                        [Employee_rejectReservation (res_id reservation)
                           (js_or (Some reason) ''No reason provided'')]\<rparr>
        in (case api_response e of
              Resolved \<Rightarrow>
                st1\<lparr>staff_toasts := staff_toasts st1 @
                       [ToastSuccess ''Reservation rejected. Notification sent to vendor.''],
                     reservations := filter (\<lambda>r. res_id r \<noteq> res_id reservation) (reservations st),
                     expandedReservation := None,
                     cancelling := None\<rparr>
            | Failed msg \<Rightarrow>
                st1\<lparr>staff_toasts := staff_toasts st1 @
                       [ToastError (js_or msg ''Failed to reject reservation'')],
                     cancelling := None\<rparr>))"

text \<open>
  The expanded panel of a reservation row: Approve and Reject buttons exactly when
  \<open>res.status === 'pending'\<close>, the Cancel button exactly when
  \<open>res.status === 'confirmed'\<close>. Each button is paired with its \<open>disabled\<close> flag
  (\<open>cancelling === res.id\<close>).
\<close>

datatype staff_action = ApproveRequest | RejectRequest | CancelReservation

definition staffPanel ::
  "nat option \<Rightarrow> 'a reservation_scheme \<Rightarrow> (staff_action \<times> bool) list" where
  "staffPanel c res =
     (if status res = ''pending''
      then [(ApproveRequest, c = Some (res_id res)), (RejectRequest, c = Some (res_id res))]
      else []) @
     (if status res = ''confirmed''
      then [(CancelReservation, c = Some (res_id res))]
      else [])"

text \<open>The panel is rendered only for the row with \<open>expandedReservation === res.id\<close>.\<close>

definition staffRow ::
  "'a reservation_scheme staff_state \<Rightarrow> 'a reservation_scheme \<Rightarrow> (staff_action \<times> bool) list" where
  "staffRow st res =
     (if expandedReservation st = Some (res_id res) then staffPanel (cancelling st) res else [])"

text \<open>The \<open>onClick\<close> of each button of the panel of \<open>res\<close>.\<close>

fun staffOnClick ::
  "staff_action \<Rightarrow> env \<Rightarrow> 'a reservation_scheme \<Rightarrow> 'a reservation_scheme staff_state
     \<Rightarrow> 'a reservation_scheme staff_state" where
  "staffOnClick ApproveRequest e res st = handleApproveReservation e res st"
| "staffOnClick RejectRequest e res st = handleRejectReservation e res st"
| "staffOnClick CancelReservation e res st = handleCancelReservation e res st"

section \<open>Vendor portal: the Dashboard page\<close>

record genre =
  genre_id :: nat
  genre_name :: string
  icon :: string

record 'r vendor_state =
  v_reservations :: "'r list"
  genres :: "genre list"
  userGenres :: "genre list"
  selectedGenres :: "nat list"
  v_loading :: bool
  v_expandedReservation :: "nat option"
  v_toasts :: "toast list"
  v_calls :: "request list"

text \<open>
  What the outside world answers to the vendor's handler: the confirmation dialog, the
  cancel call, and the three calls of \<open>fetchData\<close> (\<open>None\<close> when \<open>Promise.all\<close> rejects).
\<close>

record 'r vendor_env =
  v_confirm_answer :: bool
  v_api_response :: response
  v_fetch_answer :: "('r list \<times> genre list \<times> genre list) option"

definition fetchData ::
  "('r list \<times> genre list \<times> genre list) option \<Rightarrow> 'r vendor_state \<Rightarrow> 'r vendor_state" where
  "fetchData ans st =
     (let st1 = st\<lparr>v_loading := True,
                    v_calls := v_calls st @
                      [Vendor_getUserReservations, Vendor_getAllGenres, Vendor_getUserGenres]\<rparr>
      in (case ans of
            Some (resData, genreData, userGenreData) \<Rightarrow>
              st1\<lparr>v_reservations := resData,
                   genres := genreData,
                   userGenres := userGenreData,
                   selectedGenres := map genre_id userGenreData,
                   v_loading := False\<rparr>
          | None \<Rightarrow>
              st1\<lparr>v_toasts := v_toasts st1 @ [ToastError ''Failed to load data''],
                   v_loading := False\<rparr>))"

text \<open>
  The vendor's \<open>handleCancelReservation\<close>: after the confirmation dialog the vendor's
  cancel endpoint is called; on success the data is fetched again.
\<close>

definition vendor_handleCancelReservation ::
  "'a reservation_scheme vendor_env \<Rightarrow> 'a reservation_scheme
     \<Rightarrow> 'a reservation_scheme vendor_state \<Rightarrow> 'a reservation_scheme vendor_state" where
  "vendor_handleCancelReservation e reservation st =
     (if \<not> v_confirm_answer e then st
      else
        let st1 = st\<lparr>v_calls := v_calls st @ [Vendor_cancelReservation (res_id reservation)]\<rparr>
        in (case v_api_response e of
              Resolved \<Rightarrow>
                fetchData (v_fetch_answer e)
                  (st1\<lparr>v_toasts := v_toasts st1 @
                          [ToastSuccess ''Reservation cancelled successfully'']\<rparr>)
            | Failed msg \<Rightarrow>
                st1\<lparr>v_toasts := v_toasts st1 @
                       [ToastError (js_or msg ''Failed to cancel reservation'')]\<rparr>))"

text \<open>
  The expanded panel of a reservation card, by the ternary on \<open>res.status\<close>: the pending
  view, the confirmed view (the QR section showing \<open>res.qr_data\<close>, the two buttons, the
  info box), and the cancelled view for every other status.
\<close>

datatype vendor_element =
    AwaitingApproval
  | CancelRequest
  | ExhibitionPass string
  | DownloadQR
  | CancelBooking
  | ImportantInfo
  | CancelledView

definition vendorPanel :: "'a reservation_scheme \<Rightarrow> vendor_element list" where
  "vendorPanel res =
     (if status res = ''pending'' then [AwaitingApproval, CancelRequest]
      else if status res = ''confirmed''
      then [ExhibitionPass (qr_data res), DownloadQR, CancelBooking, ImportantInfo]
      else [CancelledView])"

definition vendorCard :: "nat option \<Rightarrow> 'a reservation_scheme \<Rightarrow> vendor_element list" where
  "vendorCard expanded res = (if expanded = Some (res_id res) then vendorPanel res else [])"

text \<open>
  The \<open>onClick\<close> of the elements of the panel of \<open>res\<close>: both cancel buttons call
  \<open>handleCancelReservation(res)\<close>; \<open>downloadQR\<close> only touches the document, and the
  other elements are not buttons.
\<close>

fun vendorOnClick ::
  "vendor_element \<Rightarrow> 'a reservation_scheme vendor_env \<Rightarrow> 'a reservation_scheme
     \<Rightarrow> 'a reservation_scheme vendor_state \<Rightarrow> 'a reservation_scheme vendor_state" where
  "vendorOnClick CancelRequest e res st = vendor_handleCancelReservation e res st"
| "vendorOnClick CancelBooking e res st = vendor_handleCancelReservation e res st"
| "vendorOnClick _ e res st = st"

section \<open>Vendor portal: the Stalls page\<close>

text \<open>
  A stall as \<open>GET /stalls\<close> returns it; its field \<open>id\<close> is named \<open>stall_ident\<close>, its
  field \<open>size\<close> is named \<open>stall_size\<close>, and \<open>is_reserved\<close> is the flag the server
  derives.
\<close>

record stall =
  stall_ident :: nat
  stall_name :: string
  stall_size :: string
  dimensions :: string
  price :: nat
  is_reserved :: bool

record 'r stalls_state =
  stalls :: "stall list"
  filteredStalls :: "stall list"
  s_loading :: bool
  selectedSize :: string
  selectedStall :: "stall option"
  showModal :: bool
  userReservations :: "'r list"
  s_toasts :: "toast list"
  s_calls :: "request list"

text \<open>
  \<open>handleSelectStall\<close>: three guards in this order, each showing an error toast and
  returning; only when all three pass is the stall selected and the modal opened.
\<close>

definition handleSelectStall ::
  "stall \<Rightarrow> 'a reservation_scheme stalls_state \<Rightarrow> 'a reservation_scheme stalls_state" where
  "handleSelectStall stall st =
     (let reserved =
            list_ex (\<lambda>res. stall_id res = stall_ident stall \<and> status res = ''confirmed'')
              (userReservations st)
      in if is_reserved stall \<and> \<not> reserved
         then st\<lparr>s_toasts := s_toasts st @ [ToastError ''This stall is already reserved'']\<rparr>
         else if reserved
         then st\<lparr>s_toasts := s_toasts st @ [ToastError ''You have already reserved this stall'']\<rparr>
         else if length (filter (\<lambda>r. status r = ''confirmed'') (userReservations st)) \<ge> 3
         then st\<lparr>s_toasts := s_toasts st @ [ToastError ''Maximum 3 stalls per business allowed'']\<rparr>
         else st\<lparr>selectedStall := Some stall, showModal := True\<rparr>)"

text \<open>
  The \<open>onClick\<close> of a stall card in the grid:
  \<open>!stall.is_reserved && handleSelectStall(stall)\<close>.
\<close>

definition stallCardOnClick ::
  "stall \<Rightarrow> 'a reservation_scheme stalls_state \<Rightarrow> 'a reservation_scheme stalls_state" where
  "stallCardOnClick stall st = (if \<not> is_reserved stall then handleSelectStall stall st else st)"

text \<open>The reservation modal is rendered exactly when \<open>showModal\<close> holds.\<close>

definition modalRendered :: "'r stalls_state \<Rightarrow> bool" where
  "modalRendered st = showModal st"

section \<open>The approve transition of the allocation engine\<close>

text \<open>
  Modelled from the spec: the reservation record of the ledger (section 3 of the
  specification). The server that keeps it is not among the sources; the portals only
  call its endpoints.
\<close>

datatype res_state = Pending | Confirmed | Rejected | Cancelled

record entry =
  entry_id :: nat
  vendor :: nat
  stall_ref :: nat
  state :: res_state
  entry_note :: string
  credential :: "string option"

text \<open>
  Modelled from the spec: the error taxonomy of section 7 and the events of section 6,
  which the missing server returns and emits.
\<close>

datatype engine_error =
  NotFound | StallUnavailable | ConflictError | InvalidTransition | CapacityExceeded

datatype event =
  ReservationConfirmed nat | ReservationRejected nat string | ReservationCancelled nat

text \<open>
  Modelled from the spec: an active reservation is one in status Pending or Confirmed
  (glossary); the missing server derives occupancy from it.
\<close>

definition active :: "entry \<Rightarrow> bool" where
  "active x = (state x = Pending \<or> state x = Confirmed)"

text \<open>
  Modelled from the spec: the vendor's current Confirmed count of invariant I2, which
  the missing server's approve checks.
\<close>

definition confirmed_count :: "entry list \<Rightarrow> nat \<Rightarrow> nat" where
  "confirmed_count L v = length (filter (\<lambda>x. vendor x = v \<and> state x = Confirmed) L)"

text \<open>
  Modelled from the spec: \<open>approve(reservationId, actor=staff)\<close> of section 4.3, the
  missing server side of \<open>POST /employee/reservations/<id>/approve\<close>. An unknown id is
  \<open>NotFound\<close>; a reservation that is not Pending is an \<open>InvalidTransition\<close>; a vendor
  whose Confirmed count is not below 3 is refused with the capacity error; another
  active reservation on the same stall is a \<open>ConflictError\<close>. Otherwise the reservation
  becomes Confirmed, its credential is issued (\<open>issue\<close>, section 4.4, is a parameter) and
  \<open>ReservationConfirmed\<close> is emitted. The result is paired with the ledger after the
  call: an error leaves the ledger as it was.
\<close>

definition approve ::
  "(entry \<Rightarrow> string) \<Rightarrow> entry list \<Rightarrow> nat \<Rightarrow> (engine_error + event) \<times> entry list" where
  "approve issue L rid =
     (case find (\<lambda>x. entry_id x = rid) L of
        None \<Rightarrow> (Inl NotFound, L)
      | Some x \<Rightarrow>
          if state x \<noteq> Pending then (Inl InvalidTransition, L)
          else if \<not> confirmed_count L (vendor x) < 3 then (Inl CapacityExceeded, L)
          else if list_ex (\<lambda>y. entry_id y \<noteq> rid \<and> stall_ref y = stall_ref x \<and> active y) L
          then (Inl ConflictError, L)
          else (Inr (ReservationConfirmed rid),
                map (\<lambda>y. if entry_id y = rid
                          then y\<lparr>state := Confirmed, credential := Some (issue y)\<rparr>
                          else y) L))"

section \<open>Sample data\<close>

text \<open>Concrete reservations, page states, answers and a ledger, used to run the definitions.\<close>

definition resv :: "nat \<Rightarrow> nat \<Rightarrow> string \<Rightarrow> reservation" where
  "resv i s stat = \<lparr>res_id = i, stall_id = s, status = stat, res_notes = [], qr_data = ''QR''\<rparr>"

definition sample_staff :: "reservation staff_state" where
  "sample_staff =
     \<lparr>reservations = [resv 1 11 ''confirmed'', resv 2 12 ''pending''],
      expandedReservation = Some 2, cancelling = None, staff_toasts = [], staff_calls = []\<rparr>"

definition answers :: "bool \<Rightarrow> string option \<Rightarrow> response \<Rightarrow> env" where
  "answers c p a = \<lparr>confirm_answer = c, prompt_answer = p, api_response = a\<rparr>"

definition sample_stalls :: "reservation stalls_state" where
  "sample_stalls =
     \<lparr>stalls = [], filteredStalls = [], s_loading = False, selectedSize = ''all'',
      selectedStall = None, showModal = False,
      userReservations = [resv 1 11 ''confirmed'', resv 2 12 ''confirmed'', resv 3 13 ''confirmed''],
      s_toasts = [], s_calls = []\<rparr>"

definition sample_stall :: "nat \<Rightarrow> bool \<Rightarrow> stall" where
  "sample_stall i b =
     \<lparr>stall_ident = i, stall_name = ''A1'', stall_size = ''small'', dimensions = ''3x3'',
      price = 5000, is_reserved = b\<rparr>"

definition ledger_entry :: "nat \<Rightarrow> nat \<Rightarrow> nat \<Rightarrow> res_state \<Rightarrow> entry" where
  "ledger_entry i v s q =
     \<lparr>entry_id = i, vendor = v, stall_ref = s, state = q, entry_note = [], credential = None\<rparr>"

definition sample_ledger :: "entry list" where
  "sample_ledger =
     [ledger_entry 1 7 11 Confirmed, ledger_entry 2 7 12 Confirmed,
      ledger_entry 3 7 13 Confirmed, ledger_entry 4 7 14 Pending,
      ledger_entry 5 8 15 Pending]"

definition sample_vendor :: "reservation vendor_state" where
  "sample_vendor =
     \<lparr>v_reservations = [resv 1 11 ''confirmed'', resv 2 12 ''pending'', resv 3 13 ''cancelled''],
      genres = [], userGenres = [], selectedGenres = [], v_loading = False,
      v_expandedReservation = Some 1, v_toasts = [], v_calls = []\<rparr>"

definition vendor_answers ::
  "bool \<Rightarrow> response \<Rightarrow> (reservation list \<times> genre list \<times> genre list) option
     \<Rightarrow> reservation vendor_env" where
  "vendor_answers c a f = \<lparr>v_confirm_answer = c, v_api_response = a, v_fetch_answer = f\<rparr>"

section \<open>Auxiliary facts\<close>

lemma find_map_update:
  assumes "find (\<lambda>y. entry_id y = rid) L = Some x" and "\<And>y. entry_id (g y) = entry_id y"
  shows "find (\<lambda>y. entry_id y = rid) (map (\<lambda>y. if entry_id y = rid then g y else y) L) = Some (g x)"
  using assms by (induction L) (auto split: if_splits)

lemma staffPanel_actions:
  "map fst (staffPanel c res) =
     (if status res = ''pending'' then [ApproveRequest, RejectRequest] else []) @
     (if status res = ''confirmed'' then [CancelReservation] else [])"
  by (simp add: staffPanel_def)

lemma staffRow_actions:
  "map fst (staffRow st res) =
     (if expandedReservation st = Some (res_id res) then map fst (staffPanel (cancelling st) res)
      else [])"
  by (simp add: staffRow_def)

lemma approve_resolved:
  assumes "confirm_answer e" and "api_response e = Resolved"
  shows "reservations (handleApproveReservation e r st) =
           map (\<lambda>x. if res_id x = res_id r then x\<lparr>status := ''confirmed''\<rparr> else x)
             (reservations st)"
  using assms by (simp add: handleApproveReservation_def Let_def)

lemma vendor_cancel_calls:
  assumes "v_confirm_answer ve"
  shows "take (Suc (length (v_calls vst))) (v_calls (vendor_handleCancelReservation ve res vst)) =
           v_calls vst @ [Vendor_cancelReservation (res_id res)]"
  using assms
  by (simp add: vendor_handleCancelReservation_def fetchData_def Let_def
        split: response.splits option.splits)

lemma staff_cancel_calls:
  assumes "confirm_answer e"
  shows "staff_calls (handleCancelReservation e res st) =
           staff_calls st @ [Employee_cancelReservation (res_id res)]"
  using assms by (simp add: handleCancelReservation_def Let_def split: response.splits)

section \<open>Approval and the cap of three confirmed reservations\<close>

text \<open>
  C1. In the engine's approve, a Pending reservation whose vendor already has three (or
  more) Confirmed reservations is refused with \<open>CapacityExceeded\<close> and the ledger is left
  as it was, so the reservation remains Pending. Whenever approve succeeds, the
  reservation was Pending, its vendor's Confirmed count was strictly below 3, and the
  ledger now holds it as Confirmed with its credential. On the staff page, a rejected
  approve call leaves the list of reservations unchanged.
\<close>

theorem approve_capacity:
  "(\<forall>x. find (\<lambda>y. entry_id y = rid) L = Some x \<and> state x = Pending \<and>
         3 \<le> confirmed_count L (vendor x)
         \<longrightarrow> approve issue L rid = (Inl CapacityExceeded, L)) \<and>
   (\<forall>ev L'. approve issue L rid = (Inr ev, L')
         \<longrightarrow> (\<exists>x. find (\<lambda>y. entry_id y = rid) L = Some x \<and> state x = Pending \<and>
                  confirmed_count L (vendor x) < 3 \<and>
                  find (\<lambda>y. entry_id y = rid) L' =
                    Some (x\<lparr>state := Confirmed, credential := Some (issue x)\<rparr>))) \<and>
   (\<forall>msg. confirm_answer e \<and> api_response e = Failed msg
         \<longrightarrow> reservations (handleApproveReservation e r st) = reservations st)"
proof (intro conjI allI impI)
  fix x
  assume "find (\<lambda>y. entry_id y = rid) L = Some x \<and> state x = Pending \<and>
          3 \<le> confirmed_count L (vendor x)"
  then show "approve issue L rid = (Inl CapacityExceeded, L)"
    by (simp add: approve_def)
next
  fix ev L'
  assume ok: "approve issue L rid = (Inr ev, L')"
  then obtain x where x: "find (\<lambda>y. entry_id y = rid) L = Some x"
    by (cases "find (\<lambda>y. entry_id y = rid) L") (auto simp: approve_def)
  from ok x have p: "state x = Pending" and c: "confirmed_count L (vendor x) < 3"
    and L': "L' = map (\<lambda>y. if entry_id y = rid
                            then y\<lparr>state := Confirmed, credential := Some (issue y)\<rparr>
                            else y) L"
    by (auto simp: approve_def split: if_splits)
  have "find (\<lambda>y. entry_id y = rid) L' =
          Some (x\<lparr>state := Confirmed, credential := Some (issue x)\<rparr>)"
    unfolding L'
    by (rule find_map_update [OF x, where g = "\<lambda>y. y\<lparr>state := Confirmed, credential := Some (issue y)\<rparr>"]) simp
  with x p c
  show "\<exists>x. find (\<lambda>y. entry_id y = rid) L = Some x \<and> state x = Pending \<and>
            confirmed_count L (vendor x) < 3 \<and>
            find (\<lambda>y. entry_id y = rid) L' =
              Some (x\<lparr>state := Confirmed, credential := Some (issue x)\<rparr>)"
    by blast
next
  fix msg
  assume "confirm_answer e \<and> api_response e = Failed msg"
  then show "reservations (handleApproveReservation e r st) = reservations st"
    by (simp add: handleApproveReservation_def Let_def)
qed

theorem approve_capacity_witness:
  "approve (\<lambda>x. ''token'') sample_ledger 4 = (Inl CapacityExceeded, sample_ledger) \<and>
   find (\<lambda>y. entry_id y = 5) (snd (approve (\<lambda>x. ''token'') sample_ledger 5)) =
     Some ((ledger_entry 5 8 15 Pending)\<lparr>state := Confirmed, credential := Some ''token''\<rparr>) \<and>
   reservations (handleApproveReservation (answers True None (Failed (Some ''Maximum 3 stalls'')))
                   (resv 2 12 ''pending'') sample_staff) = reservations sample_staff"
  using approve_capacity [of 4 sample_ledger "\<lambda>x. ''token''"
          "answers True None (Failed (Some ''Maximum 3 stalls''))" "resv 2 12 ''pending''" sample_staff]
        approve_capacity [of 5 sample_ledger "\<lambda>x. ''token''"
          "answers True None (Failed None)" "resv 2 12 ''pending''" sample_staff]
  by (simp add: sample_ledger_def ledger_entry_def confirmed_count_def answers_def approve_def active_def)

section \<open>Selecting a stall\<close>

text \<open>
  C2, as stated, fails: a vendor with three confirmed reservations who selects a stall
  flagged \<open>is_reserved\<close> is shown the already-reserved error, not the maximum-3 error,
  because that guard comes first.
\<close>

theorem select_stall_at_cap_counterexample:
  "3 \<le> length (filter (\<lambda>r. status r = ''confirmed'') (userReservations sample_stalls)) \<and>
   handleSelectStall (sample_stall 14 True) sample_stalls =
     sample_stalls\<lparr>s_toasts := [ToastError ''This stall is already reserved'']\<rparr> \<and>
   ToastError ''Maximum 3 stalls per business allowed''
     \<notin> set (s_toasts (handleSelectStall (sample_stall 14 True) sample_stalls))"
  by (simp add: handleSelectStall_def sample_stalls_def sample_stall_def resv_def)

text \<open>
  C2, amended. For a vendor whose reservations contain three or more with status
  \<open>'confirmed'\<close>, \<open>handleSelectStall\<close> refuses every stall: it only appends one error toast,
  so the modal is not opened, the selected stall is unchanged and no API call is made,
  and the same holds for a click on the stall's card. The error is the maximum-3 error
  when the stall is not flagged \<open>is_reserved\<close> and the vendor holds no confirmed
  reservation on it; the already-reserved and the you-have-already-reserved errors take
  precedence otherwise.
\<close>

theorem select_stall_at_cap:
  assumes "3 \<le> length (filter (\<lambda>r. status r = ''confirmed'') (userReservations st))"
  shows "handleSelectStall stall st =
           st\<lparr>s_toasts := s_toasts st @
                [ToastError
                   (if is_reserved stall \<and>
                       \<not> list_ex (\<lambda>res. stall_id res = stall_ident stall \<and> status res = ''confirmed'')
                           (userReservations st)
                    then ''This stall is already reserved''
                    else if list_ex (\<lambda>res. stall_id res = stall_ident stall \<and> status res = ''confirmed'')
                              (userReservations st)
                    then ''You have already reserved this stall''
                    else ''Maximum 3 stalls per business allowed'')]\<rparr> \<and>
         modalRendered (handleSelectStall stall st) = modalRendered st \<and>
         selectedStall (handleSelectStall stall st) = selectedStall st \<and>
         s_calls (handleSelectStall stall st) = s_calls st \<and>
         modalRendered (stallCardOnClick stall st) = modalRendered st \<and>
         selectedStall (stallCardOnClick stall st) = selectedStall st \<and>
         s_calls (stallCardOnClick stall st) = s_calls st"
  using assms
  by (simp add: handleSelectStall_def stallCardOnClick_def modalRendered_def Let_def)

theorem select_stall_at_cap_witness:
  "handleSelectStall (sample_stall 15 False) sample_stalls =
     sample_stalls\<lparr>s_toasts := [ToastError ''Maximum 3 stalls per business allowed'']\<rparr> \<and>
   \<not> modalRendered (handleSelectStall (sample_stall 15 False) sample_stalls) \<and>
   s_calls (stallCardOnClick (sample_stall 15 False) sample_stalls) = []"
  using select_stall_at_cap [of sample_stalls "sample_stall 15 False"]
  by (simp add: sample_stalls_def sample_stall_def resv_def modalRendered_def)

text \<open>
  C3, as stated, fails on the stall card of the grid: its click guard never calls
  \<open>handleSelectStall\<close> for a stall flagged \<open>is_reserved\<close>, so the attempt is dropped
  without any error toast.
\<close>

theorem select_reserved_stall_counterexample:
  "is_reserved (sample_stall 14 True) \<and>
   \<not> list_ex (\<lambda>res. stall_id res = stall_ident (sample_stall 14 True) \<and> status res = ''confirmed'')
       (userReservations sample_stalls) \<and>
   s_toasts (stallCardOnClick (sample_stall 14 True) sample_stalls) = []"
  by (simp add: stallCardOnClick_def sample_stalls_def sample_stall_def resv_def)

text \<open>
  C3, amended. For a stall flagged \<open>is_reserved\<close> on which the vendor holds no confirmed
  reservation, \<open>handleSelectStall\<close> only appends the error toast "This stall is already
  reserved" (the modal is not opened, the selected stall is unchanged, no API call is
  made), and a click on the stall's card leaves the page state unchanged, without a
  toast.
\<close>

theorem select_reserved_stall:
  assumes "is_reserved stall"
    and "\<not> list_ex (\<lambda>res. stall_id res = stall_ident stall \<and> status res = ''confirmed'')
             (userReservations st)"
  shows "handleSelectStall stall st =
           st\<lparr>s_toasts := s_toasts st @ [ToastError ''This stall is already reserved'']\<rparr> \<and>
         stallCardOnClick stall st = st \<and>
         modalRendered (handleSelectStall stall st) = modalRendered st \<and>
         selectedStall (handleSelectStall stall st) = selectedStall st \<and>
         s_calls (handleSelectStall stall st) = s_calls st"
  using assms by (simp add: handleSelectStall_def stallCardOnClick_def modalRendered_def)

theorem select_reserved_stall_witness:
  "handleSelectStall (sample_stall 14 True) sample_stalls =
     sample_stalls\<lparr>s_toasts := [ToastError ''This stall is already reserved'']\<rparr> \<and>
   stallCardOnClick (sample_stall 14 True) sample_stalls = sample_stalls"
  using select_reserved_stall [of "sample_stall 14 True" sample_stalls]
  by (simp add: sample_stalls_def sample_stall_def resv_def)

section \<open>The staff page: approve, reject, cancel\<close>

text \<open>
  C4. After a confirmed and successful staff approve of reservation \<open>r\<close>, every entry of
  the list with the id of \<open>r\<close> has status \<open>'confirmed'\<close> and the ids of the list are the
  same as before. The Approve button is in the panel of a reservation exactly when its
  status is \<open>'pending'\<close>, a rendered row shows it only for a pending reservation, and its
  click handler is \<open>handleApproveReservation\<close>.
\<close>

theorem approve_pending_to_confirmed:
  "(confirm_answer e \<and> api_response e = Resolved \<longrightarrow>
      (\<forall>x \<in> set (reservations (handleApproveReservation e r st)).
          res_id x = res_id r \<longrightarrow> status x = ''confirmed'') \<and>
      map res_id (reservations (handleApproveReservation e r st)) = map res_id (reservations st)) \<and>
   (ApproveRequest \<in> set (map fst (staffPanel c res)) \<longleftrightarrow> status res = ''pending'') \<and>
   (ApproveRequest \<in> set (map fst (staffRow st res)) \<longrightarrow> status res = ''pending'') \<and>
   staffOnClick ApproveRequest e res st = handleApproveReservation e res st"
proof (intro conjI impI)
  assume ok: "confirm_answer e \<and> api_response e = Resolved"
  then show "\<forall>x \<in> set (reservations (handleApproveReservation e r st)).
               res_id x = res_id r \<longrightarrow> status x = ''confirmed''"
    by (auto simp: approve_resolved)
  from ok show "map res_id (reservations (handleApproveReservation e r st)) =
                  map res_id (reservations st)"
    by (simp add: approve_resolved)
next
  show "ApproveRequest \<in> set (map fst (staffPanel c res)) \<longleftrightarrow> status res = ''pending''"
    by (simp add: staffPanel_actions)
next
  assume "ApproveRequest \<in> set (map fst (staffRow st res))"
  then show "status res = ''pending''"
    by (simp add: staffRow_actions staffPanel_actions split: if_splits)
next
  show "staffOnClick ApproveRequest e res st = handleApproveReservation e res st"
    by simp
qed

theorem approve_pending_to_confirmed_witness:
  "reservations (handleApproveReservation (answers True None Resolved) (resv 2 12 ''pending'') sample_staff)
     = [resv 1 11 ''confirmed'', resv 2 12 ''confirmed''] \<and>
   ApproveRequest \<in> set (map fst (staffRow sample_staff (resv 2 12 ''pending''))) \<and>
   ApproveRequest \<notin> set (map fst (staffPanel None (resv 1 11 ''confirmed'')))"
  using approve_pending_to_confirmed [of "answers True None Resolved" "resv 2 12 ''pending''"
          sample_staff None "resv 1 11 ''confirmed''"]
  by (simp add: handleApproveReservation_def sample_staff_def answers_def resv_def staffRow_def
        staffPanel_def)

text \<open>
  C5, as stated, fails on the staff page: the panel of a pending reservation offers
  Approve and Reject, and no Cancel button.
\<close>

theorem cancel_offered_counterexample:
  "status (resv 2 12 ''pending'') = ''pending'' \<and>
   CancelReservation \<notin> set (map fst (staffPanel None (resv 2 12 ''pending''))) \<and>
   CancelReservation \<notin> set (map fst (staffRow sample_staff (resv 2 12 ''pending'')))"
  by (simp add: staffPanel_def staffRow_def sample_staff_def resv_def)

text \<open>
  C5, amended. The vendor's dashboard offers a cancel button exactly for reservations
  with status \<open>'pending'\<close> or \<open>'confirmed'\<close>: Cancel Request exactly for \<open>'pending'\<close>, Cancel
  Booking exactly for \<open>'confirmed'\<close>, and only the cancelled view for any other status.
  The staff page offers its Cancel button exactly for status \<open>'confirmed'\<close>, Approve and
  Reject (and nothing else) for status \<open>'pending'\<close>, and no action for any other status;
  a row shows these buttons only while it is the expanded one. Once the dialog is
  confirmed, the vendor's buttons call the vendor cancel endpoint for that reservation,
  and the staff button calls the employee cancel endpoint for it.
\<close>

theorem cancel_offered:
  "((CancelRequest \<in> set (vendorPanel res) \<or> CancelBooking \<in> set (vendorPanel res))
      \<longleftrightarrow> (status res = ''pending'' \<or> status res = ''confirmed'')) \<and>
   (CancelReservation \<in> set (map fst (staffPanel c res)) \<longleftrightarrow> status res = ''confirmed'') \<and>
   (status res = ''pending'' \<longrightarrow> map fst (staffPanel c res) = [ApproveRequest, RejectRequest]) \<and>
   (v_confirm_answer ve \<longrightarrow>
      (\<forall>b \<in> {CancelRequest, CancelBooking}.
         take (Suc (length (v_calls vst))) (v_calls (vendorOnClick b ve res vst)) =
           v_calls vst @ [Vendor_cancelReservation (res_id res)])) \<and>
   (confirm_answer e \<longrightarrow>
      staff_calls (staffOnClick CancelReservation e res st) =
        staff_calls st @ [Employee_cancelReservation (res_id res)]) \<and>
   (CancelRequest \<in> set (vendorPanel res) \<longleftrightarrow> status res = ''pending'') \<and>
   (CancelBooking \<in> set (vendorPanel res) \<longleftrightarrow> status res = ''confirmed'') \<and>
   map fst (staffPanel c res) =
     (if status res = ''pending'' then [ApproveRequest, RejectRequest]
      else if status res = ''confirmed'' then [CancelReservation]
      else []) \<and>
   (status res \<noteq> ''pending'' \<and> status res \<noteq> ''confirmed'' \<longrightarrow>
      staffPanel c res = [] \<and> staffRow st res = [] \<and> vendorPanel res = [CancelledView]) \<and>
   map fst (staffRow st res) =
     (if expandedReservation st = Some (res_id res)
      then map fst (staffPanel (cancelling st) res) else [])"
proof (intro conjI impI)
  show "(CancelRequest \<in> set (vendorPanel res) \<or> CancelBooking \<in> set (vendorPanel res))
          \<longleftrightarrow> (status res = ''pending'' \<or> status res = ''confirmed'')"
    by (simp add: vendorPanel_def)
next
  show "CancelReservation \<in> set (map fst (staffPanel c res)) \<longleftrightarrow> status res = ''confirmed''"
    by (simp add: staffPanel_actions)
next
  assume "status res = ''pending''"
  then show "map fst (staffPanel c res) = [ApproveRequest, RejectRequest]"
    by (simp add: staffPanel_actions)
next
  assume "v_confirm_answer ve"
  then show "\<forall>b \<in> {CancelRequest, CancelBooking}.
               take (Suc (length (v_calls vst))) (v_calls (vendorOnClick b ve res vst)) =
                 v_calls vst @ [Vendor_cancelReservation (res_id res)]"
    by (simp add: vendor_cancel_calls)
next
  assume "confirm_answer e"
  then show "staff_calls (staffOnClick CancelReservation e res st) =
               staff_calls st @ [Employee_cancelReservation (res_id res)]"
    by (simp add: staff_cancel_calls)
next
  show "CancelRequest \<in> set (vendorPanel res) \<longleftrightarrow> status res = ''pending''"
    by (simp add: vendorPanel_def)
next
  show "CancelBooking \<in> set (vendorPanel res) \<longleftrightarrow> status res = ''confirmed''"
    by (simp add: vendorPanel_def)
next
  show "map fst (staffPanel c res) =
          (if status res = ''pending'' then [ApproveRequest, RejectRequest]
           else if status res = ''confirmed'' then [CancelReservation]
           else [])"
    by (simp add: staffPanel_actions)
next
  assume other: "status res \<noteq> ''pending'' \<and> status res \<noteq> ''confirmed''"
  then show "staffPanel c res = []"
    by (simp add: staffPanel_def)
  from other show "staffRow st res = []"
    by (simp add: staffRow_def staffPanel_def)
  from other show "vendorPanel res = [CancelledView]"
    by (simp add: vendorPanel_def)
next
  show "map fst (staffRow st res) =
          (if expandedReservation st = Some (res_id res)
           then map fst (staffPanel (cancelling st) res) else [])"
    by (rule staffRow_actions)
qed

theorem cancel_offered_witness:
  "CancelRequest \<in> set (vendorPanel (resv 2 12 ''pending'')) \<and>
   CancelBooking \<in> set (vendorPanel (resv 1 11 ''confirmed'')) \<and>
   CancelReservation \<in> set (map fst (staffPanel None (resv 1 11 ''confirmed''))) \<and>
   map fst (staffPanel None (resv 2 12 ''pending'')) = [ApproveRequest, RejectRequest] \<and>
   v_calls (vendorOnClick CancelBooking (vendor_answers True (Failed None) None)
              (resv 1 11 ''confirmed'') sample_vendor) = [Vendor_cancelReservation 1] \<and>
   staff_calls (staffOnClick CancelReservation (answers True None Resolved)
                  (resv 1 11 ''confirmed'') sample_staff) = [Employee_cancelReservation 1] \<and>
   staffPanel None (resv 3 13 ''cancelled'') = [] \<and>
   vendorPanel (resv 3 13 ''cancelled'') = [CancelledView]"
  using cancel_offered [of "resv 1 11 ''confirmed''" None "vendor_answers True (Failed None) None"
          sample_vendor "answers True None Resolved" sample_staff]
        cancel_offered [of "resv 2 12 ''pending''" None "vendor_answers True (Failed None) None"
          sample_vendor "answers True None Resolved" sample_staff]
        cancel_offered [of "resv 3 13 ''cancelled''" None "vendor_answers True (Failed None) None"
          sample_vendor "answers True None Resolved" sample_staff]
  by (simp add: resv_def vendor_answers_def answers_def sample_vendor_def sample_staff_def
        vendorPanel_def vendor_handleCancelReservation_def)

text \<open>
  C6. When the prompt is answered with a reason, the reject call carries "No reason
  provided" if that reason is empty, and the reason itself otherwise.
\<close>

theorem reject_reason:
  "prompt_answer e = Some reason \<Longrightarrow>
     staff_calls (handleRejectReservation e r st) =
       staff_calls st @
         [Employee_rejectReservation (res_id r)
            (if reason = [] then ''No reason provided'' else reason)]"
  by (simp add: handleRejectReservation_def Let_def split: response.split)

theorem reject_reason_witness:
  "staff_calls (handleRejectReservation (answers True (Some []) Resolved)
                  (resv 2 12 ''pending'') sample_staff)
     = [Employee_rejectReservation 2 ''No reason provided''] \<and>
   staff_calls (handleRejectReservation (answers True (Some ''duplicate'') Resolved)
                  (resv 2 12 ''pending'') sample_staff)
     = [Employee_rejectReservation 2 ''duplicate'']"
  using reject_reason [of "answers True (Some [])  Resolved" "[]" "resv 2 12 ''pending''" sample_staff]
        reject_reason [of "answers True (Some ''duplicate'') Resolved" "''duplicate''"
          "resv 2 12 ''pending''" sample_staff]
  by (simp add: answers_def resv_def sample_staff_def)




section \<open>The vendor's dashboard: the QR credential\<close>

text \<open>
  C8. The status branches of a reservation's panel contain the QR section exactly when
  the status is \<open>'confirmed'\<close>, and the section shows the reservation's \<open>qr_data\<close>; a card
  shows it exactly when it is the expanded one and its status is \<open>'confirmed'\<close>.
\<close>

theorem qr_exactly_when_confirmed:
  "((\<exists>q. ExhibitionPass q \<in> set (vendorPanel res)) \<longleftrightarrow> status res = ''confirmed'') \<and>
   (\<forall>q. ExhibitionPass q \<in> set (vendorPanel res) \<longrightarrow> q = qr_data res) \<and>
   ((\<exists>q. ExhibitionPass q \<in> set (vendorCard ex res))
      \<longleftrightarrow> ex = Some (res_id res) \<and> status res = ''confirmed'')"
  by (auto simp: vendorPanel_def vendorCard_def)

theorem qr_exactly_when_confirmed_witness:
  "ExhibitionPass ''QR'' \<in> set (vendorPanel (resv 1 11 ''confirmed'')) \<and>
   ExhibitionPass ''QR'' \<notin> set (vendorPanel (resv 2 12 ''pending'')) \<and>
   ExhibitionPass ''QR'' \<notin> set (vendorPanel (resv 3 13 ''cancelled'')) \<and>
   ExhibitionPass ''QR'' \<in> set (vendorCard (Some 1) (resv 1 11 ''confirmed''))"
  using qr_exactly_when_confirmed [of "resv 1 11 ''confirmed''" "Some 1"]
        qr_exactly_when_confirmed [of "resv 2 12 ''pending''" "Some 1"]
        qr_exactly_when_confirmed [of "resv 3 13 ''cancelled''" "Some 1"]
  by (simp add: resv_def vendorPanel_def vendorCard_def)

section \<open>Frame conditions of the staff handlers\<close>

text \<open>
  C9. After a confirmed and successful staff approve of reservation \<open>r\<close>, the list has the
  same length, every position holding another id is unchanged, and a position holding
  the id of \<open>r\<close> holds the former entry with only its status replaced by \<open>'confirmed'\<close>.
\<close>

theorem approve_frame:
  assumes "confirm_answer e" and "api_response e = Resolved"
  shows "length (reservations (handleApproveReservation e r st)) = length (reservations st) \<and>
         (\<forall>i < length (reservations st).
            (res_id (reservations st ! i) \<noteq> res_id r \<longrightarrow>
               reservations (handleApproveReservation e r st) ! i = reservations st ! i) \<and>
            (res_id (reservations st ! i) = res_id r \<longrightarrow>
               reservations (handleApproveReservation e r st) ! i =
                 (reservations st ! i)\<lparr>status := ''confirmed''\<rparr>))"
  using assms by (simp add: handleApproveReservation_def Let_def)

theorem approve_frame_witness:
  "length (reservations (handleApproveReservation (answers True None Resolved)
                           (resv 2 12 ''pending'') sample_staff)) = 2 \<and>
   reservations (handleApproveReservation (answers True None Resolved)
                   (resv 2 12 ''pending'') sample_staff) ! 0 = resv 1 11 ''confirmed'' \<and>
   reservations (handleApproveReservation (answers True None Resolved)
                   (resv 2 12 ''pending'') sample_staff) ! 1 =
     (resv 2 12 ''pending'')\<lparr>status := ''confirmed''\<rparr>"
  using approve_frame [of "answers True None Resolved" "resv 2 12 ''pending''" sample_staff]
  by (simp add: answers_def resv_def sample_staff_def)

text \<open>
  C10. When the reason prompt returns \<open>null\<close>, \<open>handleRejectReservation\<close> returns the page
  state as it was: no API call is issued and the list of reservations is unchanged.
\<close>

theorem reject_dismissed:
  assumes "prompt_answer e = None"
  shows "handleRejectReservation e r st = st \<and>
         staff_calls (handleRejectReservation e r st) = staff_calls st \<and>
         reservations (handleRejectReservation e r st) = reservations st"
  using assms by (simp add: handleRejectReservation_def)

theorem reject_dismissed_witness:
  "handleRejectReservation (answers True None Resolved) (resv 2 12 ''pending'') sample_staff
     = sample_staff \<and>
   staff_calls (handleRejectReservation (answers True None Resolved) (resv 2 12 ''pending'')
                  sample_staff) = []"
  using reject_dismissed [of "answers True None Resolved" "resv 2 12 ''pending''" sample_staff]
  by (simp add: answers_def sample_staff_def)

end
